theory Spec2Isabelle
  imports Main
begin

section \<open>Data model of App.tsx\<close>

text \<open>
  The type \<^verbatim>\<open>Recipe\<close> of the source. The fields \<^verbatim>\<open>id\<close> and \<^verbatim>\<open>image\<close> carry a
  prime, since HOL already has constants of these names. \<^verbatim>\<open>string | null\<close> is an option.
\<close>

record Recipe =
  id' :: string
  title :: string
  image' :: "string option"
  category :: string
  servings :: string
  prepTime :: string
  cookTime :: string
  description :: string
  ingredients :: string
  instructions :: string

text \<open>
  \<^verbatim>\<open>Partial<Recipe>\<close>, the type of the form state: every field may be missing
  (\<open>None\<close> is \<^verbatim>\<open>undefined\<close>). For the image, \<open>Some None\<close> is \<^verbatim>\<open>null\<close>.
\<close>

record Form =
  form_id :: "string option"
  form_title :: "string option"
  form_image :: "string option option"
  form_category :: "string option"
  form_servings :: "string option"
  form_prepTime :: "string option"
  form_cookTime :: "string option"
  form_description :: "string option"
  form_ingredients :: "string option"
  form_instructions :: "string option"

text \<open>The object literal \<^verbatim>\<open>{}\<close>.\<close>

definition empty_form :: Form where
  "empty_form =
     \<lparr>form_id = None, form_title = None, form_image = None, form_category = None,
      form_servings = None, form_prepTime = None, form_cookTime = None,
      form_description = None, form_ingredients = None, form_instructions = None\<rparr>"

datatype View = LIST | ADD | DETAIL

text \<open>
  The component's state (the five \<^verbatim>\<open>useState\<close> cells) together with its two
  collaborators: \<open>storage\<close> is the item that AsyncStorage holds under
  \<^verbatim>\<open>STORAGE_KEY\<close> (\<open>None\<close> when there is none), and \<open>alerts\<close> lists the calls of
  \<^verbatim>\<open>Alert.alert\<close> (title and message) in the order they were made.
  \<^verbatim>\<open>console.error\<close> is not modelled.
\<close>

record App =
  recipes :: "Recipe list"
  view :: View
  selectedRecipe :: "Recipe option"
  loading :: bool
  form :: Form
  storage :: "string option"
  alerts :: "(string \<times> string) list"

definition initial_App :: "string option \<Rightarrow> App" where
  "initial_App st =
     \<lparr>recipes = [], view = LIST, selectedRecipe = None, loading = True,
      form = empty_form, storage = st, alerts = []\<rparr>"

text \<open>
  What \<^verbatim>\<open>JSON.parse\<close> does with a text: it throws, or it returns an array of
  recipes, or it returns some other value (\<^verbatim>\<open>null\<close>, a number, a string, an object,
  an array of other things). Its result type is \<^verbatim>\<open>any\<close>, so the source hands the
  third kind on as if it were a \<^verbatim>\<open>Recipe[]\<close>.
\<close>

datatype Parsed = Throws | Parsed_recipes "Recipe list" | Parsed_other

text \<open>The JSON library is a parameter.\<close>

record Env =
  JSON_stringify :: "Recipe list \<Rightarrow> string"
  JSON_parse :: "string \<Rightarrow> Parsed"

definition Alert_alert :: "string \<Rightarrow> string \<Rightarrow> App \<Rightarrow> App" where
  "Alert_alert t m s = s\<lparr>alerts := alerts s @ [(t, m)]\<rparr>"

section \<open>JavaScript operators on optional strings\<close>

text \<open>\<^verbatim>\<open>!x\<close> for \<^verbatim>\<open>x: string | undefined\<close>: true for \<^verbatim>\<open>undefined\<close> and for \<^verbatim>\<open>''\<close>.\<close>

definition falsy :: "string option \<Rightarrow> bool" where
  "falsy x = (case x of None \<Rightarrow> True | Some v \<Rightarrow> v = [])"

text \<open>\<^verbatim>\<open>x || d\<close> for \<^verbatim>\<open>x: string | undefined\<close> and a string \<^verbatim>\<open>d\<close>.\<close>

definition or_string :: "string option \<Rightarrow> string \<Rightarrow> string" where
  "or_string x d = (case x of None \<Rightarrow> d | Some v \<Rightarrow> if v = [] then d else v)"

text \<open>\<^verbatim>\<open>x || null\<close> for \<^verbatim>\<open>x: string | null | undefined\<close>.\<close>

definition or_null :: "string option option \<Rightarrow> string option" where
  "or_null x =
     (case x of
        None \<Rightarrow> None
      | Some None \<Rightarrow> None
      | Some (Some v) \<Rightarrow> if v = [] then None else Some v)"

text \<open>
  \<^verbatim>\<open>Date.now().toString()\<close>: the clock reading is a number of milliseconds since
  1970, taken to be non-negative, and far below the size from which JavaScript prints
  an exponent; so it is printed as its decimal digits.
\<close>

definition digit_char :: "nat \<Rightarrow> char" where
  "digit_char d = ''0123456789'' ! d"

fun toString :: "nat \<Rightarrow> string" where
  "toString n =
     (if n < 10 then [digit_char n] else toString (n div 10) @ [digit_char (n mod 10)])"

declare toString.simps [simp del]

section \<open>The handlers\<close>

text \<open>
  The component after \<^verbatim>\<open>loadRecipes\<close>. \<open>Typed s\<close>: every state cell holds a value of
  its declared type, and \<open>s\<close> is the state. \<open>Untyped s\<close>: \<^verbatim>\<open>setRecipes\<close> was given a
  parsed value that is not a \<^verbatim>\<open>Recipe[]\<close>; the cell \<^verbatim>\<open>recipes\<close> holds that value,
  \<open>s\<close> gives the other cells only, and its field \<open>recipes\<close> is not what the cell holds.
  What the component does from there depends on the value (\<^verbatim>\<open>renderList\<close> reads
  \<^verbatim>\<open>recipes.length\<close> and calls \<^verbatim>\<open>recipes.map\<close>, which throws for \<^verbatim>\<open>null\<close>, a
  number or an object) and is not modelled.
\<close>

datatype Mounted = Typed App | Untyped App

text \<open>
  \<^verbatim>\<open>loadRecipes\<close>. \<open>getItem_ok\<close> tells whether the promise of
  \<^verbatim>\<open>AsyncStorage.getItem\<close> resolves; a rejection and a throwing \<^verbatim>\<open>JSON.parse\<close>
  reach the same \<^verbatim>\<open>catch\<close>, and \<^verbatim>\<open>finally\<close> clears \<open>loading\<close> on every path.
  Whatever \<^verbatim>\<open>JSON.parse\<close> returns goes to \<^verbatim>\<open>setRecipes\<close> without a check.
\<close>

definition loadRecipes :: "Env \<Rightarrow> bool \<Rightarrow> App \<Rightarrow> Mounted" where
  "loadRecipes env getItem_ok s =
     (if getItem_ok then
        (case storage s of
           None \<Rightarrow> Typed (s\<lparr>loading := False\<rparr>)
         | Some jsonValue \<Rightarrow>
             (case JSON_parse env jsonValue of
                Parsed_recipes rs \<Rightarrow> Typed (s\<lparr>recipes := rs, loading := False\<rparr>)
              | Parsed_other \<Rightarrow> Untyped (s\<lparr>loading := False\<rparr>)
              | Throws \<Rightarrow>
                  Typed ((Alert_alert ''Error'' ''Failed to load recipes'' s)\<lparr>loading := False\<rparr>)))
      else Typed ((Alert_alert ''Error'' ''Failed to load recipes'' s)\<lparr>loading := False\<rparr>))"

text \<open>
  \<^verbatim>\<open>saveRecipesToStorage\<close>, from the settling of its promise on: \<open>s\<close> is the state at
  that moment, \<open>newRecipes\<close> the argument that was fixed when the function was called.
  \<open>setItem_ok\<close> tells whether the promise of \<^verbatim>\<open>AsyncStorage.setItem\<close> resolves; a
  write that is rejected leaves the stored item as it was. \<^verbatim>\<open>setRecipes\<close> is reached
  only after the write, and it replaces the whole collection.
\<close>

definition saveRecipesToStorage :: "Env \<Rightarrow> bool \<Rightarrow> Recipe list \<Rightarrow> App \<Rightarrow> App" where
  "saveRecipesToStorage env setItem_ok newRecipes s =
     (if setItem_ok then
        s\<lparr>storage := Some (JSON_stringify env newRecipes), recipes := newRecipes\<rparr>
      else Alert_alert ''Error'' ''Failed to save recipe'' s)"

text \<open>The object literal that \<^verbatim>\<open>handleSave\<close> builds; \<open>now\<close> is \<^verbatim>\<open>Date.now()\<close>.\<close>

definition newRecipe :: "nat \<Rightarrow> Form \<Rightarrow> Recipe" where
  "newRecipe now f =
     \<lparr>id' = toString now,
      title = or_string (form_title f) [],
      image' = or_null (form_image f),
      category = or_string (form_category f) ''General'',
      servings = or_string (form_servings f) [],
      prepTime = or_string (form_prepTime f) [],
      cookTime = or_string (form_cookTime f) [],
      description = or_string (form_description f) [],
      ingredients = or_string (form_ingredients f) [],
      instructions = or_string (form_instructions f) []\<rparr>"

text \<open>
  \<^verbatim>\<open>handleSave\<close> does not await the promise of \<^verbatim>\<open>saveRecipesToStorage\<close>.
  \<open>handleSave_sync\<close> is the handler up to its return: the state it leaves, and the
  collection whose write is still in flight (\<open>None\<close> when the guard returned early).
  \<open>handleSave\<close> is the handler together with the settling of that write, when nothing
  else happens in between.
\<close>

definition handleSave_sync :: "nat \<Rightarrow> App \<Rightarrow> App \<times> Recipe list option" where
  "handleSave_sync now s =
     (if falsy (form_title (form s)) \<or> falsy (form_ingredients (form s)) then
        (Alert_alert ''Missing Fields'' ''Title and Ingredients are required.'' s, None)
      else
        (let updated = newRecipe now (form s) # recipes s
         in (s\<lparr>form := empty_form, view := LIST\<rparr>, Some updated)))"

definition handleSave :: "Env \<Rightarrow> bool \<Rightarrow> nat \<Rightarrow> App \<Rightarrow> App" where
  "handleSave env setItem_ok now s =
     (case handleSave_sync now s of
        (s1, None) \<Rightarrow> s1
      | (s1, Some updated) \<Rightarrow> saveRecipesToStorage env setItem_ok updated s1)"

text \<open>
  \<^verbatim>\<open>handleDelete\<close> awaits the write, then compares the id with that of the selected
  recipe (\<^verbatim>\<open>selectedRecipe?.id === id\<close> is false when nothing is selected).
\<close>

definition handleDelete :: "Env \<Rightarrow> bool \<Rightarrow> string \<Rightarrow> App \<Rightarrow> App" where
  "handleDelete env setItem_ok i s =
     (let updated = filter (\<lambda>r. id' r \<noteq> i) (recipes s);
          s1 = saveRecipesToStorage env setItem_ok updated s
      in (case selectedRecipe s of
            None \<Rightarrow> s1
          | Some r \<Rightarrow>
              if id' r = i then s1\<lparr>selectedRecipe := None, view := LIST\<rparr> else s1))"

definition openDetail :: "Recipe \<Rightarrow> App \<Rightarrow> App" where
  "openDetail recipe s = s\<lparr>selectedRecipe := Some recipe, view := DETAIL\<rparr>"

text \<open>The inline handlers of the buttons: the "+" of the list, Cancel of the form,
  Back of the detail view.\<close>

definition press_add :: "App \<Rightarrow> App" where
  "press_add s = s\<lparr>form := empty_form, view := ADD\<rparr>"

definition press_cancel :: "App \<Rightarrow> App" where
  "press_cancel s = s\<lparr>view := LIST\<rparr>"

definition press_back :: "App \<Rightarrow> App" where
  "press_back s = s\<lparr>view := LIST\<rparr>"

text \<open>The handlers of the form's inputs: each is \<^verbatim>\<open>setForm({ ...form, field: value })\<close>.
  \<^verbatim>\<open>handlePickImage\<close> gets the picker's result: \<open>None\<close> when the user cancelled,
  otherwise the uri of the first asset.\<close>

definition handlePickImage :: "string option \<Rightarrow> App \<Rightarrow> App" where
  "handlePickImage result s =
     (case result of
        None \<Rightarrow> s
      | Some uri \<Rightarrow> s\<lparr>form := (form s)\<lparr>form_image := Some (Some uri)\<rparr>\<rparr>)"

definition CATEGORIES :: "string list" where
  "CATEGORIES = [''Breakfast'', ''Lunch'', ''Dinner'', ''Snack'', ''Dessert'']"

definition set_title :: "string \<Rightarrow> App \<Rightarrow> App" where
  "set_title t s = s\<lparr>form := (form s)\<lparr>form_title := Some t\<rparr>\<rparr>"

definition set_category :: "string \<Rightarrow> App \<Rightarrow> App" where
  "set_category cat s = s\<lparr>form := (form s)\<lparr>form_category := Some cat\<rparr>\<rparr>"

definition set_servings :: "string \<Rightarrow> App \<Rightarrow> App" where
  "set_servings t s = s\<lparr>form := (form s)\<lparr>form_servings := Some t\<rparr>\<rparr>"

definition set_prepTime :: "string \<Rightarrow> App \<Rightarrow> App" where
  "set_prepTime t s = s\<lparr>form := (form s)\<lparr>form_prepTime := Some t\<rparr>\<rparr>"

definition set_cookTime :: "string \<Rightarrow> App \<Rightarrow> App" where
  "set_cookTime t s = s\<lparr>form := (form s)\<lparr>form_cookTime := Some t\<rparr>\<rparr>"

definition set_description :: "string \<Rightarrow> App \<Rightarrow> App" where
  "set_description t s = s\<lparr>form := (form s)\<lparr>form_description := Some t\<rparr>\<rparr>"

definition set_ingredients :: "string \<Rightarrow> App \<Rightarrow> App" where
  "set_ingredients t s = s\<lparr>form := (form s)\<lparr>form_ingredients := Some t\<rparr>\<rparr>"

definition set_instructions :: "string \<Rightarrow> App \<Rightarrow> App" where
  "set_instructions t s = s\<lparr>form := (form s)\<lparr>form_instructions := Some t\<rparr>\<rparr>"

text \<open>
  The delete button of the detail view opens the dialog
  \<^verbatim>\<open>Alert.alert("Delete", "Are you sure?", ...)\<close>; its Delete button calls
  \<^verbatim>\<open>handleDelete(selectedRecipe.id)\<close>, its Cancel button does nothing.
\<close>

definition press_delete :: "Env \<Rightarrow> bool \<Rightarrow> bool \<Rightarrow> Recipe \<Rightarrow> App \<Rightarrow> App" where
  "press_delete env confirmed setItem_ok selected s =
     (let s1 = Alert_alert ''Delete'' ''Are you sure?'' s
      in if confirmed then handleDelete env setItem_ok (id' selected) s1 else s1)"

section \<open>What the rendered views let the user do\<close>

text \<open>
  One constructor for each control that the three render functions put on the screen.
  \<open>Tap_recipe k\<close> is a tap on the \<open>k\<close>-th card of the list; \<open>Tap_save\<close> carries the
  clock reading that \<^verbatim>\<open>Date.now()\<close> returns and whether the write resolves;
  \<open>Tap_delete\<close> carries the dialog's answer and whether the write resolves.
\<close>

datatype Event =
    Tap_recipe nat
  | Tap_add
  | Pick_image "string option"
  | Type_title string
  | Tap_category string
  | Type_servings string
  | Type_prepTime string
  | Type_cookTime string
  | Type_description string
  | Type_ingredients string
  | Type_instructions string
  | Tap_cancel
  | Tap_save nat bool
  | Tap_back
  | Tap_delete bool bool

text \<open>
  \<open>step\<close> follows the component's return value: the spinner alone while \<open>loading\<close>,
  then the render function of the current view, and nothing in the detail view when no
  recipe is selected. An event whose control is not on the screen changes nothing.
  \<open>step\<close> settles the write of a save or a delete within the step: \<open>step\<close> and \<open>run\<close>
  describe the sessions in which no event arrives while a write is in flight. The code
  does not enforce this (\<^verbatim>\<open>handleSave\<close> does not await its write, and the views stay
  in use during a write); a session with a write in flight is put together from
  \<open>handleSave_sync\<close> and \<open>saveRecipesToStorage\<close>, as in \<open>second_write_settled\<close> below.
\<close>

definition step :: "Env \<Rightarrow> Event \<Rightarrow> App \<Rightarrow> App" where
  "step env ev s =
     (if loading s then s
      else
        (case view s of
           LIST \<Rightarrow>
             (case ev of
                Tap_recipe k \<Rightarrow>
                  if k < length (recipes s) then openDetail (recipes s ! k) s else s
              | Tap_add \<Rightarrow> press_add s
              | _ \<Rightarrow> s)
         | ADD \<Rightarrow>
             (case ev of
                Pick_image result \<Rightarrow> handlePickImage result s
              | Type_title t \<Rightarrow> set_title t s
              | Tap_category cat \<Rightarrow> if cat \<in> set CATEGORIES then set_category cat s else s
              | Type_servings t \<Rightarrow> set_servings t s
              | Type_prepTime t \<Rightarrow> set_prepTime t s
              | Type_cookTime t \<Rightarrow> set_cookTime t s
              | Type_description t \<Rightarrow> set_description t s
              | Type_ingredients t \<Rightarrow> set_ingredients t s
              | Type_instructions t \<Rightarrow> set_instructions t s
              | Tap_cancel \<Rightarrow> press_cancel s
              | Tap_save now setItem_ok \<Rightarrow> handleSave env setItem_ok now s
              | _ \<Rightarrow> s)
         | DETAIL \<Rightarrow>
             (case selectedRecipe s of
                None \<Rightarrow> s
              | Some selected \<Rightarrow>
                  (case ev of
                     Tap_back \<Rightarrow> press_back s
                   | Tap_delete confirmed setItem_ok \<Rightarrow>
                       press_delete env confirmed setItem_ok selected s
                   | _ \<Rightarrow> s))))"

definition run :: "Env \<Rightarrow> Event list \<Rightarrow> App \<Rightarrow> App" where
  "run env evs s = foldl (\<lambda>a ev. step env ev a) s evs"

text \<open>Mounting the component: the effect calls \<open>loadRecipes\<close> on the initial state.\<close>

definition startup :: "Env \<Rightarrow> bool \<Rightarrow> string option \<Rightarrow> Mounted" where
  "startup env getItem_ok st = loadRecipes env getItem_ok (initial_App st)"

text \<open>The clock readings that the saves of an event sequence use.\<close>

fun clock_readings :: "Event list \<Rightarrow> nat list" where
  "clock_readings [] = []"
| "clock_readings (Tap_save now setItem_ok # evs) = now # clock_readings evs"
| "clock_readings (ev # evs) = clock_readings evs"


text \<open>The number that a string of decimal digits denotes.\<close>

definition digit_val :: "char \<Rightarrow> nat" where
  "digit_val c = of_char c - 48"

definition decimal_value :: "string \<Rightarrow> nat" where
  "decimal_value cs = foldl (\<lambda>a c. 10 * a + digit_val c) 0 cs"

section \<open>A sample environment and sample states\<close>

text \<open>
  For concrete runs: \<open>sample_stringify\<close> writes a collection the way
  \<^verbatim>\<open>JSON.stringify\<close> does when no string needs an escape, and \<open>sample_parse\<close>
  reads back the texts of the collections in \<open>sample_collections\<close>, returns another
  value for the texts \<^verbatim>\<open>null\<close>, \<^verbatim>\<open>{}\<close> and \<^verbatim>\<open>42\<close>, and throws on every other text.
\<close>

definition quoted :: "string \<Rightarrow> string" where
  "quoted v = CHR 0x22 # v @ [CHR 0x22]"

definition member_text :: "string \<Rightarrow> string \<Rightarrow> string" where
  "member_text k v = quoted k @ '':'' @ quoted v"

definition object_text :: "Recipe \<Rightarrow> string" where
  "object_text r =
     ''{'' @ member_text ''id'' (id' r) @ '','' @ member_text ''title'' (title r) @ '','' @
     quoted ''image'' @ '':'' @ (case image' r of None \<Rightarrow> ''null'' | Some v \<Rightarrow> quoted v) @ '','' @
     member_text ''category'' (category r) @ '','' @
     member_text ''servings'' (servings r) @ '','' @
     member_text ''prepTime'' (prepTime r) @ '','' @
     member_text ''cookTime'' (cookTime r) @ '','' @
     member_text ''description'' (description r) @ '','' @
     member_text ''ingredients'' (ingredients r) @ '','' @
     member_text ''instructions'' (instructions r) @ ''}''"

fun comma_separated :: "string list \<Rightarrow> string" where
  "comma_separated [] = []"
| "comma_separated [x] = x"
| "comma_separated (x # y # ys) = x @ '','' @ comma_separated (y # ys)"

definition sample_stringify :: "Recipe list \<Rightarrow> string" where
  "sample_stringify rs = ''['' @ comma_separated (map object_text rs) @ '']''"

definition pasta :: Recipe where
  "pasta =
     \<lparr>id' = ''1700000000000'', title = ''Pasta'', image' = None, category = ''General'',
      servings = [], prepTime = [], cookTime = [], description = [],
      ingredients = ''eggs, flour'', instructions = []\<rparr>"

definition sample_collections :: "Recipe list list" where
  "sample_collections = [[], [pasta], [pasta, pasta]]"

definition sample_parse :: "string \<Rightarrow> Parsed" where
  "sample_parse j =
     (if j = ''null'' \<or> j = ''{}'' \<or> j = ''42'' then Parsed_other
      else
        (case find (\<lambda>rs. sample_stringify rs = j) sample_collections of
           Some rs \<Rightarrow> Parsed_recipes rs
         | None \<Rightarrow> Throws))"

definition sample_env :: Env where
  "sample_env = \<lparr>JSON_stringify = sample_stringify, JSON_parse = sample_parse\<rparr>"

text \<open>The state after mounting with nothing stored.\<close>

definition empty_start :: App where
  "empty_start = (initial_App None)\<lparr>loading := False\<rparr>"

text \<open>
  The specification's example: on an empty store the user opens the form and types the
  title and the ingredients.
\<close>

definition pasta_typed :: "Event list" where
  "pasta_typed = [Tap_add, Type_title ''Pasta'', Type_ingredients ''eggs, flour'']"

definition pasta_draft :: App where
  "pasta_draft = run sample_env pasta_typed empty_start"

text \<open>The form as it opens, the collection after the draft is saved, the detail view
  of the saved recipe, and a session that saves the same draft twice at one clock
  reading.\<close>

definition blank_draft :: App where
  "blank_draft = run sample_env [Tap_add] empty_start"

definition pasta_saved :: App where
  "pasta_saved = run sample_env [Tap_save 1700000000000 True] pasta_draft"


definition pasta_twice :: "Event list" where
  "pasta_twice =
     pasta_typed @ [Tap_save 1700000000000 True] @ pasta_typed @ [Tap_save 1700000000000 True]"








text \<open>What one event can do to the collection: nothing, put the new recipe in front
  (a save), or drop the recipes of one id (a delete).\<close>

definition recipes_change :: "Event \<Rightarrow> App \<Rightarrow> App \<Rightarrow> bool" where
  "recipes_change ev s s' \<longleftrightarrow>
     recipes s' = recipes s \<or>
     (\<exists>now ok. ev = Tap_save now ok \<and> recipes s' = newRecipe now (form s) # recipes s) \<or>
     (\<exists>i. recipes s' = filter (\<lambda>r. id' r \<noteq> i) (recipes s))"

section \<open>The printed clock reading\<close>

lemma toString_sample: "toString 1700000000000 = ''1700000000000''"
  by (simp add: toString.simps digit_char_def)

lemma digit_val_digit_char: "d < 10 \<Longrightarrow> digit_val (digit_char d) = d"
proof -
  assume "d < 10"
  then have "d \<in> {0,1,2,3,4,5,6,7,8,9}" by auto
  then show ?thesis by (auto simp: digit_val_def digit_char_def)
qed

lemma decimal_value_snoc: "decimal_value (cs @ [c]) = 10 * decimal_value cs + digit_val c"
  by (simp add: decimal_value_def)

lemma decimal_value_toString: "decimal_value (toString n) = n"
proof (induction n rule: toString.induct)
  case (1 n)
  show ?case
  proof (cases "n < 10")
    case True
    then show ?thesis
      by (subst toString.simps) (simp add: decimal_value_def digit_val_digit_char)
  next
    case False
    with 1 have "decimal_value (toString (n div 10)) = n div 10" by simp
    with False show ?thesis
      by (subst toString.simps) (simp add: decimal_value_snoc digit_val_digit_char)
  qed
qed

lemma toString_inj: "toString m = toString n \<longleftrightarrow> m = n"
  by (metis decimal_value_toString)

lemma id'_newRecipe: "id' (newRecipe now f) = toString now"
  by (simp add: newRecipe_def)

section \<open>Facts about the handlers\<close>

lemma saveRecipesToStorage_rejected:
  "saveRecipesToStorage env False rs s = Alert_alert ''Error'' ''Failed to save recipe'' s"
  by (simp add: saveRecipesToStorage_def)

lemma recipes_Alert_alert [simp]: "recipes (Alert_alert t m s) = recipes s"
  by (simp add: Alert_alert_def)

lemma storage_Alert_alert [simp]: "storage (Alert_alert t m s) = storage s"
  by (simp add: Alert_alert_def)

lemma view_Alert_alert [simp]: "view (Alert_alert t m s) = view s"
  by (simp add: Alert_alert_def)

lemma form_Alert_alert [simp]: "form (Alert_alert t m s) = form s"
  by (simp add: Alert_alert_def)

lemma selectedRecipe_Alert_alert [simp]:
  "selectedRecipe (Alert_alert t m s) = selectedRecipe s"
  by (simp add: Alert_alert_def)

lemma alerts_Alert_alert [simp]: "alerts (Alert_alert t m s) = alerts s @ [(t, m)]"
  by (simp add: Alert_alert_def)

lemma handleSave_sync_valid:
  assumes "\<not> falsy (form_title (form s))" and "\<not> falsy (form_ingredients (form s))"
  shows "handleSave_sync now s =
           (s\<lparr>form := empty_form, view := LIST\<rparr>, Some (newRecipe now (form s) # recipes s))"
  using assms by (simp add: handleSave_sync_def)

lemma handleSave_sync_invalid:
  assumes "falsy (form_title (form s)) \<or> falsy (form_ingredients (form s))"
  shows "handleSave_sync now s =
           (Alert_alert ''Missing Fields'' ''Title and Ingredients are required.'' s, None)"
  using assms by (simp add: handleSave_sync_def)

lemma handleSave_valid:
  assumes "\<not> falsy (form_title (form s))" and "\<not> falsy (form_ingredients (form s))"
  shows "handleSave env ok now s =
           saveRecipesToStorage env ok (newRecipe now (form s) # recipes s)
             (s\<lparr>form := empty_form, view := LIST\<rparr>)"
  by (simp add: handleSave_def handleSave_sync_valid [OF assms])

lemma recipes_handleSave:
  "recipes (handleSave env ok now s) =
     (if ok \<and> \<not> falsy (form_title (form s)) \<and> \<not> falsy (form_ingredients (form s))
      then newRecipe now (form s) # recipes s else recipes s)"
  by (simp add: handleSave_def handleSave_sync_def saveRecipesToStorage_def)

lemma recipes_handleDelete:
  "recipes (handleDelete env ok i s) =
     (if ok then filter (\<lambda>r. id' r \<noteq> i) (recipes s) else recipes s)"
  by (simp add: handleDelete_def saveRecipesToStorage_def Let_def split: option.split)

lemma filter_id_unknown:
  assumes "i \<notin> id' ` set rs"
  shows "filter (\<lambda>r. id' r \<noteq> i) rs = rs"
  using assms by (induction rs) auto

lemma recipes_form_edits:
  "recipes (handlePickImage res s) = recipes s"
  "recipes (set_title t s) = recipes s"
  "recipes (set_category t s) = recipes s"
  "recipes (set_servings t s) = recipes s"
  "recipes (set_prepTime t s) = recipes s"
  "recipes (set_cookTime t s) = recipes s"
  "recipes (set_description t s) = recipes s"
  "recipes (set_ingredients t s) = recipes s"
  "recipes (set_instructions t s) = recipes s"
  by (simp_all add: handlePickImage_def set_title_def set_category_def set_servings_def
      set_prepTime_def set_cookTime_def set_description_def set_ingredients_def
      set_instructions_def split: option.split)

lemma run_Cons: "run env (ev # evs) s = run env evs (step env ev s)"
  by (simp add: run_def)

lemma run_single: "run env [ev] s = step env ev s"
  by (simp add: run_def)

lemma run_append: "run env (xs @ ys) s = run env ys (run env xs s)"
  by (simp add: run_def)

lemma startup_empty: "startup env True None = Typed empty_start"
  by (simp add: startup_def loadRecipes_def initial_App_def empty_start_def)

lemma empty_start_eq:
  "empty_start =
     \<lparr>recipes = [], view = LIST, selectedRecipe = None, loading = False,
      form = empty_form, storage = None, alerts = []\<rparr>"
  by (simp add: empty_start_def initial_App_def)

section \<open>The sample states, evaluated\<close>

lemma pasta_draft_eq:
  "pasta_draft =
     \<lparr>recipes = [], view = ADD, selectedRecipe = None, loading = False,
      form = empty_form\<lparr>form_title := Some ''Pasta'', form_ingredients := Some ''eggs, flour''\<rparr>,
      storage = None, alerts = []\<rparr>"
  by (simp add: pasta_draft_def pasta_typed_def run_def step_def empty_start_eq
      press_add_def set_title_def set_ingredients_def)

lemma blank_draft_eq:
  "blank_draft =
     \<lparr>recipes = [], view = ADD, selectedRecipe = None, loading = False,
      form = empty_form, storage = None, alerts = []\<rparr>"
  by (simp add: blank_draft_def run_def step_def empty_start_eq press_add_def)

lemma newRecipe_pasta: "newRecipe 1700000000000 (form pasta_draft) = pasta"
  by (simp add: pasta_draft_eq newRecipe_def toString_sample pasta_def empty_form_def
      or_string_def or_null_def)

lemma sample_roundtrip_pasta:
  "sample_parse (sample_stringify [pasta]) = Parsed_recipes [pasta]"
  by (simp add: sample_parse_def sample_collections_def sample_stringify_def object_text_def
     member_text_def quoted_def pasta_def)

lemma pasta_draft_valid:
  "\<not> falsy (form_title (form pasta_draft)) \<and> \<not> falsy (form_ingredients (form pasta_draft))"
  by (simp add: pasta_draft_eq falsy_def)

lemma pasta_saved_eq:
  "pasta_saved =
     \<lparr>recipes = [pasta], view = LIST, selectedRecipe = None, loading = False,
      form = empty_form, storage = Some (sample_stringify [pasta]), alerts = []\<rparr>"
proof -
  have "pasta_saved = handleSave sample_env True 1700000000000 pasta_draft"
    by (simp add: pasta_saved_def run_def step_def pasta_draft_eq)
  also have "\<dots> = saveRecipesToStorage sample_env True [pasta]
                     (pasta_draft\<lparr>form := empty_form, view := LIST\<rparr>)"
    using pasta_draft_valid by (simp add: handleSave_valid newRecipe_pasta) (simp add: pasta_draft_eq)
  finally show ?thesis
    by (simp add: saveRecipesToStorage_def sample_env_def pasta_draft_eq)
qed



lemma pasta_typed_saved:
  "run sample_env pasta_typed pasta_saved =
     \<lparr>recipes = [pasta], view = ADD, selectedRecipe = None, loading = False,
      form = empty_form\<lparr>form_title := Some ''Pasta'', form_ingredients := Some ''eggs, flour''\<rparr>,
      storage = Some (sample_stringify [pasta]), alerts = []\<rparr>"
  by (simp add: pasta_typed_def run_def step_def pasta_saved_eq press_add_def set_title_def
      set_ingredients_def)

lemma run_pasta_twice:
  "recipes (run sample_env pasta_twice empty_start) = [pasta, pasta]"
proof -
  have twice: "pasta_twice =
      (pasta_typed @ [Tap_save 1700000000000 True]) @ (pasta_typed @ [Tap_save 1700000000000 True])"
    by (simp add: pasta_twice_def)
  have "run sample_env pasta_twice empty_start =
        run sample_env [Tap_save 1700000000000 True] (run sample_env pasta_typed pasta_saved)"
    unfolding pasta_saved_def pasta_draft_def by (simp only: twice run_append)
  also have "\<dots> = handleSave sample_env True 1700000000000 (run sample_env pasta_typed pasta_saved)"
    by (simp add: run_single step_def pasta_typed_saved)
  finally show ?thesis
    by (simp add: recipes_handleSave pasta_typed_saved falsy_def)
      (simp add: newRecipe_def toString_sample pasta_def empty_form_def or_string_def
        or_null_def)
qed

section \<open>The detail view and the collection\<close>


section \<open>How one event changes the ids\<close>

lemma recipes_change_refl: "recipes_change ev s s"
  by (simp add: recipes_change_def)

lemma recipes_change_LIST:
  assumes "view s = LIST"
  shows "recipes_change ev s (step env ev s)"
  using assms
  by (cases ev) (simp_all add: recipes_change_def step_def openDetail_def press_add_def)

lemma recipes_change_ADD:
  assumes "view s = ADD"
  shows "recipes_change ev s (step env ev s)"
  using assms
  by (cases ev)
    (simp_all add: recipes_change_def step_def recipes_form_edits press_cancel_def
      recipes_handleSave)

lemma recipes_change_DETAIL:
  assumes "view s = DETAIL"
  shows "recipes_change ev s (step env ev s)"
proof (cases "selectedRecipe s")
  case None
  with assms show ?thesis by (simp add: recipes_change_def step_def)
next
  case (Some r)
  show ?thesis
  proof (cases ev)
    case (Tap_delete confirmed ok)
    have "recipes (press_delete env confirmed ok r s) = recipes s \<or>
          recipes (press_delete env confirmed ok r s) = filter (\<lambda>x. id' x \<noteq> id' r) (recipes s)"
      by (simp add: press_delete_def Let_def recipes_handleDelete)
    then have "recipes_change ev s (press_delete env confirmed ok r s)"
      unfolding recipes_change_def by blast
    with assms Some Tap_delete show ?thesis by (simp add: step_def recipes_change_refl)
  qed (use assms Some in \<open>simp_all add: recipes_change_def step_def press_back_def\<close>)
qed

lemma recipes_change_step: "recipes_change ev s (step env ev s)"
  using recipes_change_LIST recipes_change_ADD recipes_change_DETAIL
  by (cases "view s") blast+

lemma clock_readings_Cons: "clock_readings (ev # evs) = clock_readings [ev] @ clock_readings evs"
  by (cases ev) simp_all

lemma ids_step:
  "id' ` set (recipes (step env ev s)) \<subseteq>
     id' ` set (recipes s) \<union> toString ` set (clock_readings [ev])"
  using recipes_change_step [of ev s env] unfolding recipes_change_def
  by (auto simp: id'_newRecipe)

lemma distinct_ids_step:
  assumes "distinct (map id' (recipes s))"
    and "\<forall>n \<in> set (clock_readings [ev]). toString n \<notin> id' ` set (recipes s)"
  shows "distinct (map id' (recipes (step env ev s)))"
proof -
  from recipes_change_step [of ev s env]
  consider "recipes (step env ev s) = recipes s"
    | now ok where "ev = Tap_save now ok"
        "recipes (step env ev s) = newRecipe now (form s) # recipes s"
    | i where "recipes (step env ev s) = filter (\<lambda>r. id' r \<noteq> i) (recipes s)"
    unfolding recipes_change_def by blast
  then show ?thesis
  proof cases
    case 1
    with assms(1) show ?thesis by simp
  next
    case 2
    with assms show ?thesis by (simp add: id'_newRecipe)
  next
    case 3
    with assms(1) show ?thesis by (simp add: distinct_map_filter)
  qed
qed

section \<open>The claims\<close>

text \<open>
  C1: when the write to storage fails during a create (\<open>handleSave\<close>) or a delete
  (\<open>handleDelete\<close>), the collection in memory after the call is the collection before
  it, whatever the starting state; the stored item is untouched as well.
\<close>

theorem failed_write_keeps_recipes:
  "recipes (handleSave env False now s) = recipes s \<and>
   recipes (handleDelete env False i s) = recipes s \<and>
   storage (handleSave env False now s) = storage s \<and>
   storage (handleDelete env False i s) = storage s"
  by (simp add: handleSave_def handleSave_sync_def handleDelete_def
      saveRecipesToStorage_rejected Let_def split: option.split)

text \<open>
  C2, as the code has it: for an id that no recipe of the collection carries,
  \<open>handleDelete\<close> leaves the collection as it was, whether the write resolves or not;
  it has no check for a missing recipe, so with a resolving write it stores the
  unchanged collection again and reports nothing.
\<close>

theorem delete_unknown_id_rewrites_storage:
  assumes "i \<notin> id' ` set (recipes s)"
  shows "recipes (handleDelete env setItem_ok i s) = recipes s \<and>
         storage (handleDelete env True i s) = Some (JSON_stringify env (recipes s)) \<and>
         alerts (handleDelete env True i s) = alerts s"
proof -
  have same: "filter (\<lambda>r. id' r \<noteq> i) (recipes s) = recipes s"
    using assms by (rule filter_id_unknown)
  have "recipes (handleDelete env setItem_ok i s) = recipes s"
    by (simp add: recipes_handleDelete same)
  moreover have "storage (handleDelete env True i s) = Some (JSON_stringify env (recipes s))"
    by (simp add: handleDelete_def saveRecipesToStorage_def same Let_def split: option.split)
  moreover have "alerts (handleDelete env True i s) = alerts s"
    by (simp add: handleDelete_def saveRecipesToStorage_def Let_def split: option.split)
  ultimately show ?thesis by simp
qed

text \<open>The saved sample collection and an id that is not in it.\<close>

theorem delete_unknown_id_rewrites_storage_witness:
  "''7'' \<notin> id' ` set (recipes pasta_saved) \<and>
   recipes (handleDelete sample_env True ''7'' pasta_saved) = [pasta] \<and>
   storage (handleDelete sample_env True ''7'' pasta_saved) = Some (sample_stringify [pasta]) \<and>
   alerts (handleDelete sample_env True ''7'' pasta_saved) = []"
proof -
  have unknown: "''7'' \<notin> id' ` set (recipes pasta_saved)"
    by (simp add: pasta_saved_eq pasta_def)
  from delete_unknown_id_rewrites_storage [OF unknown, of sample_env True] unknown
  show ?thesis by (simp add: pasta_saved_eq sample_env_def)
qed

text \<open>
  C2 as stated fails: on the empty collection with nothing stored, deleting an id that
  matches no recipe creates the stored item and raises no alert.
\<close>

theorem delete_unknown_id_counterexample:
  "startup sample_env True None = Typed empty_start \<and>
   storage empty_start = None \<and>
   recipes empty_start = [] \<and>
   storage (handleDelete sample_env True ''7'' empty_start) = Some ''[]'' \<and>
   alerts (handleDelete sample_env True ''7'' empty_start) = []"
  by (simp add: startup_empty) (simp add: empty_start_eq handleDelete_def
      saveRecipesToStorage_def sample_env_def sample_stringify_def Let_def)

text \<open>
  C3, as the code has it: for a draft with non-empty title and ingredients whose write
  resolves, \<open>handleSave\<close> puts the new recipe in front of the collection and
  reports nothing; if moreover the JSON library reads back what it wrote, a restart
  (\<open>startup\<close> on the stored item) ends in a typed state that holds the same
  collection, the new recipe first.
\<close>

theorem valid_draft_created_when_write_succeeds:
  assumes "\<not> falsy (form_title (form s))" and "\<not> falsy (form_ingredients (form s))"
  shows "recipes (handleSave env True now s) = newRecipe now (form s) # recipes s \<and>
         alerts (handleSave env True now s) = alerts s \<and>
         (JSON_parse env (JSON_stringify env (newRecipe now (form s) # recipes s)) =
            Parsed_recipes (newRecipe now (form s) # recipes s) \<longrightarrow>
          (\<exists>s'. startup env True (storage (handleSave env True now s)) = Typed s' \<and>
             recipes s' = newRecipe now (form s) # recipes s))"
  by (simp add: handleSave_valid [OF assms] saveRecipesToStorage_def startup_def
      loadRecipes_def initial_App_def)

text \<open>The specification's example draft, saved and loaded again.\<close>

theorem valid_draft_created_when_write_succeeds_witness:
  "\<not> falsy (form_title (form pasta_draft)) \<and>
   \<not> falsy (form_ingredients (form pasta_draft)) \<and>
   recipes (handleSave sample_env True 1700000000000 pasta_draft) = [pasta] \<and>
   alerts (handleSave sample_env True 1700000000000 pasta_draft) = [] \<and>
   JSON_parse sample_env (JSON_stringify sample_env [pasta]) = Parsed_recipes [pasta] \<and>
   startup sample_env True (storage (handleSave sample_env True 1700000000000 pasta_draft)) =
     Typed ((initial_App (Some (sample_stringify [pasta])))\<lparr>recipes := [pasta], loading := False\<rparr>)"
proof -
  have v1: "\<not> falsy (form_title (form pasta_draft))"
    and v2: "\<not> falsy (form_ingredients (form pasta_draft))"
    using pasta_draft_valid by simp_all
  have rt: "JSON_parse sample_env (JSON_stringify sample_env [pasta]) = Parsed_recipes [pasta]"
    by (simp add: sample_env_def sample_roundtrip_pasta)
  have old: "recipes pasta_draft = []" "alerts pasta_draft = []"
    by (simp_all add: pasta_draft_eq)
  note t = valid_draft_created_when_write_succeeds [OF v1 v2, of sample_env 1700000000000]
  from t have created:
    "recipes (handleSave sample_env True 1700000000000 pasta_draft) = [pasta]"
    "alerts (handleSave sample_env True 1700000000000 pasta_draft) = []"
    by (simp_all add: newRecipe_pasta old)
  from t rt obtain s' where
    loaded: "startup sample_env True
       (storage (handleSave sample_env True 1700000000000 pasta_draft)) = Typed s'"
    by (auto simp: newRecipe_pasta old)
  have stored: "storage (handleSave sample_env True 1700000000000 pasta_draft) =
      Some (sample_stringify [pasta])"
    using v1 v2
    by (simp add: handleSave_valid saveRecipesToStorage_def newRecipe_pasta old sample_env_def)
  have "startup sample_env True (Some (sample_stringify [pasta])) =
      Typed ((initial_App (Some (sample_stringify [pasta])))\<lparr>recipes := [pasta], loading := False\<rparr>)"
    using rt by (simp add: startup_def loadRecipes_def initial_App_def sample_env_def)
  with created stored loaded v1 v2 rt show ?thesis by simp
qed

text \<open>
  C3 as stated fails: the example draft is valid, but when the write is rejected the
  collection stays empty, nothing is stored, and a restart loads nothing.
\<close>

theorem valid_draft_failed_write_counterexample:
  "\<not> falsy (form_title (form pasta_draft)) \<and>
   \<not> falsy (form_ingredients (form pasta_draft)) \<and>
   recipes (handleSave sample_env False 1700000000000 pasta_draft) = [] \<and>
   storage (handleSave sample_env False 1700000000000 pasta_draft) = None \<and>
   startup sample_env True
     (storage (handleSave sample_env False 1700000000000 pasta_draft)) = Typed empty_start \<and>
   recipes empty_start = []"
proof -
  have "recipes (handleSave sample_env False 1700000000000 pasta_draft) = []"
    by (simp add: recipes_handleSave pasta_draft_eq)
  moreover have "storage (handleSave sample_env False 1700000000000 pasta_draft) = None"
    using pasta_draft_valid
    by (simp add: handleSave_valid saveRecipesToStorage_rejected) (simp add: pasta_draft_eq)
  moreover have "recipes empty_start = []"
    by (simp add: empty_start_eq)
  ultimately show ?thesis using pasta_draft_valid by (simp add: startup_empty)
qed

text \<open>
  C4: for a draft whose title or ingredients are empty (missing or the empty string),
  \<open>handleSave\<close> only raises the alert "Missing Fields": no write is started, and the
  collection, the stored item, the form and the view are as before; in particular the
  Save button of the form leaves the view at \<open>ADD\<close>.
\<close>

theorem invalid_draft_rejected:
  assumes "falsy (form_title (form s)) \<or> falsy (form_ingredients (form s))"
  shows "handleSave env setItem_ok now s =
           Alert_alert ''Missing Fields'' ''Title and Ingredients are required.'' s \<and>
         snd (handleSave_sync now s) = None \<and>
         alerts (handleSave env setItem_ok now s) =
           alerts s @ [(''Missing Fields'', ''Title and Ingredients are required.'')] \<and>
         recipes (handleSave env setItem_ok now s) = recipes s \<and>
         storage (handleSave env setItem_ok now s) = storage s \<and>
         form (handleSave env setItem_ok now s) = form s \<and>
         view (handleSave env setItem_ok now s) = view s \<and>
         (view s = ADD \<longrightarrow> view (step env (Tap_save now setItem_ok) s) = ADD)"
proof -
  have sync: "handleSave_sync now s =
      (Alert_alert ''Missing Fields'' ''Title and Ingredients are required.'' s, None)"
    using assms by (rule handleSave_sync_invalid)
  then have whole: "handleSave env setItem_ok now s =
      Alert_alert ''Missing Fields'' ''Title and Ingredients are required.'' s"
    by (simp add: handleSave_def)
  have "view s = ADD \<longrightarrow> view (step env (Tap_save now setItem_ok) s) = ADD"
    by (simp add: step_def whole)
  with sync whole show ?thesis by simp
qed

text \<open>The form as it opens has no title.\<close>

theorem invalid_draft_rejected_witness:
  "falsy (form_title (form blank_draft)) \<and> view blank_draft = ADD \<and>
   view (handleSave sample_env True 1700000000000 blank_draft) = ADD \<and>
   recipes (handleSave sample_env True 1700000000000 blank_draft) = [] \<and>
   storage (handleSave sample_env True 1700000000000 blank_draft) = None \<and>
   alerts (handleSave sample_env True 1700000000000 blank_draft) =
     [(''Missing Fields'', ''Title and Ingredients are required.'')]"
proof -
  have empty: "falsy (form_title (form blank_draft))"
    by (simp add: blank_draft_eq empty_form_def falsy_def)
  then have "falsy (form_title (form blank_draft)) \<or> falsy (form_ingredients (form blank_draft))"
    by simp
  from invalid_draft_rejected [OF this, of sample_env True 1700000000000] empty
  show ?thesis by (simp add: blank_draft_eq)
qed

text \<open>
  C5, as the code has it: Cancel switches the view to \<open>LIST\<close> and leaves the form
  and the collection as they are; the "+" button switches to \<open>ADD\<close> with the empty
  form, so the form is empty whenever it opens, also after a cancelled draft.
\<close>

theorem cancel_keeps_draft_add_resets_it:
  "view (press_cancel s) = LIST \<and> form (press_cancel s) = form s \<and>
   recipes (press_cancel s) = recipes s \<and>
   view (press_add s) = ADD \<and> form (press_add s) = empty_form \<and>
   form (press_add (press_cancel s)) = empty_form"
  by (simp add: press_cancel_def press_add_def)

text \<open>
  C5 as stated fails: after Cancel on the example draft the view is \<open>LIST\<close>, but
  the form still holds the title that was typed.
\<close>

theorem cancel_keeps_draft_counterexample:
  "view pasta_draft = ADD \<and>
   view (step sample_env Tap_cancel pasta_draft) = LIST \<and>
   form (step sample_env Tap_cancel pasta_draft) \<noteq> empty_form \<and>
   form_title (form (step sample_env Tap_cancel pasta_draft)) = Some ''Pasta''"
  by (simp add: step_def press_cancel_def pasta_draft_eq empty_form_def)







text \<open>
  C8: for a draft with non-empty title and ingredients whose write resolves, the recipe
  in front of the collection is \<open>newRecipe\<close> of the form: its category is "General"
  when the form has none, its image is \<^verbatim>\<open>null\<close> when the form has none, and the
  servings, the two times, the description and the instructions are empty strings when
  the form has none; the title and the ingredients are those of the form.
\<close>

theorem created_recipe_defaults:
  assumes "\<not> falsy (form_title (form s))" and "\<not> falsy (form_ingredients (form s))"
  shows "recipes (handleSave env True now s) = newRecipe now (form s) # recipes s \<and>
    (form_category (form s) = None \<longrightarrow> category (newRecipe now (form s)) = ''General'') \<and>
    (form_image (form s) = None \<longrightarrow> image' (newRecipe now (form s)) = None) \<and>
    (form_servings (form s) = None \<longrightarrow> servings (newRecipe now (form s)) = []) \<and>
    (form_prepTime (form s) = None \<longrightarrow> prepTime (newRecipe now (form s)) = []) \<and>
    (form_cookTime (form s) = None \<longrightarrow> cookTime (newRecipe now (form s)) = []) \<and>
    (form_description (form s) = None \<longrightarrow> description (newRecipe now (form s)) = []) \<and>
    (form_instructions (form s) = None \<longrightarrow> instructions (newRecipe now (form s)) = []) \<and>
    form_title (form s) = Some (title (newRecipe now (form s))) \<and>
    form_ingredients (form s) = Some (ingredients (newRecipe now (form s)))"
proof -
  have created: "recipes (handleSave env True now s) = newRecipe now (form s) # recipes s"
    using assms by (simp add: recipes_handleSave)
  have required: "form_title (form s) = Some (title (newRecipe now (form s)))"
    "form_ingredients (form s) = Some (ingredients (newRecipe now (form s)))"
    using assms by (auto simp: newRecipe_def falsy_def or_string_def split: option.splits)
  have defaults:
    "form_category (form s) = None \<longrightarrow> category (newRecipe now (form s)) = ''General''"
    "form_image (form s) = None \<longrightarrow> image' (newRecipe now (form s)) = None"
    "form_servings (form s) = None \<longrightarrow> servings (newRecipe now (form s)) = []"
    "form_prepTime (form s) = None \<longrightarrow> prepTime (newRecipe now (form s)) = []"
    "form_cookTime (form s) = None \<longrightarrow> cookTime (newRecipe now (form s)) = []"
    "form_description (form s) = None \<longrightarrow> description (newRecipe now (form s)) = []"
    "form_instructions (form s) = None \<longrightarrow> instructions (newRecipe now (form s)) = []"
    by (simp_all add: newRecipe_def or_string_def or_null_def)
  from created required defaults show ?thesis by blast
qed

text \<open>The example draft sets the title and the ingredients only.\<close>

theorem created_recipe_defaults_witness:
  "\<not> falsy (form_title (form pasta_draft)) \<and>
   \<not> falsy (form_ingredients (form pasta_draft)) \<and>
   form_category (form pasta_draft) = None \<and>
   form_image (form pasta_draft) = None \<and>
   form_servings (form pasta_draft) = None \<and>
   form_prepTime (form pasta_draft) = None \<and>
   form_cookTime (form pasta_draft) = None \<and>
   form_description (form pasta_draft) = None \<and>
   form_instructions (form pasta_draft) = None \<and>
   recipes (handleSave sample_env True 1700000000000 pasta_draft) = [pasta] \<and>
   category pasta = ''General'' \<and> image' pasta = None \<and> servings pasta = [] \<and>
   prepTime pasta = [] \<and> cookTime pasta = [] \<and> description pasta = [] \<and>
   instructions pasta = [] \<and> title pasta = ''Pasta'' \<and> ingredients pasta = ''eggs, flour''"
proof -
  have v1: "\<not> falsy (form_title (form pasta_draft))"
    and v2: "\<not> falsy (form_ingredients (form pasta_draft))"
    using pasta_draft_valid by simp_all
  have unset: "form_category (form pasta_draft) = None" "form_image (form pasta_draft) = None"
    "form_servings (form pasta_draft) = None" "form_prepTime (form pasta_draft) = None"
    "form_cookTime (form pasta_draft) = None" "form_description (form pasta_draft) = None"
    "form_instructions (form pasta_draft) = None"
    by (simp_all add: pasta_draft_eq empty_form_def)
  have set: "form_title (form pasta_draft) = Some ''Pasta''"
    "form_ingredients (form pasta_draft) = Some ''eggs, flour''" "recipes pasta_draft = []"
    by (simp_all add: pasta_draft_eq)
  from created_recipe_defaults [OF v1 v2, of sample_env 1700000000000] v1 v2
  show ?thesis by (simp add: newRecipe_pasta unset set)
qed

text \<open>
  C9, as the code has it: the id is the printed clock reading. If the ids of the
  collection are pairwise distinct, the clock readings of the saves in a sequence of
  events are pairwise different, and none of them prints to an id of the collection,
  then the ids of the collection after the sequence are pairwise distinct.
\<close>

theorem ids_distinct_when_clock_readings_differ:
  assumes "distinct (map id' (recipes s))"
    and "distinct (clock_readings evs)"
    and "\<forall>n \<in> set (clock_readings evs). toString n \<notin> id' ` set (recipes s)"
  shows "distinct (map id' (recipes (run env evs s)))"
  using assms
proof (induction evs arbitrary: s)
  case Nil
  then show ?case by (simp add: run_def)
next
  case (Cons ev evs)
  have split: "clock_readings (ev # evs) = clock_readings [ev] @ clock_readings evs"
    by (rule clock_readings_Cons)
  from Cons.prems(3) split
  have fresh_now: "\<forall>n \<in> set (clock_readings [ev]). toString n \<notin> id' ` set (recipes s)"
    by simp
  with Cons.prems(1) have d: "distinct (map id' (recipes (step env ev s)))"
    by (rule distinct_ids_step)
  from Cons.prems(2) split have later: "distinct (clock_readings evs)"
    and apart: "set (clock_readings [ev]) \<inter> set (clock_readings evs) = {}"
    by simp_all
  have fresh_later:
    "\<forall>n \<in> set (clock_readings evs). toString n \<notin> id' ` set (recipes (step env ev s))"
  proof
    fix n
    assume n: "n \<in> set (clock_readings evs)"
    with Cons.prems(3) split have "toString n \<notin> id' ` set (recipes s)" by simp
    moreover from n apart have "toString n \<notin> toString ` set (clock_readings [ev])"
      by (auto simp: toString_inj)
    ultimately show "toString n \<notin> id' ` set (recipes (step env ev s))"
      using ids_step [of env ev s] by blast
  qed
  from Cons.IH [OF d later fresh_later] show ?case by (simp add: run_Cons)
qed

text \<open>A second save one millisecond after the first.\<close>

theorem ids_distinct_when_clock_readings_differ_witness:
  "distinct (map id' (recipes pasta_saved)) \<and>
   distinct (clock_readings (pasta_typed @ [Tap_save 1700000000001 True])) \<and>
   toString 1700000000001 \<notin> id' ` set (recipes pasta_saved) \<and>
   length (recipes (run sample_env (pasta_typed @ [Tap_save 1700000000001 True]) pasta_saved)) = 2 \<and>
   distinct (map id' (recipes
     (run sample_env (pasta_typed @ [Tap_save 1700000000001 True]) pasta_saved)))"
proof -
  have later: "toString 1700000000001 = ''1700000000001''"
    by (simp add: toString.simps digit_char_def)
  have readings: "clock_readings (pasta_typed @ [Tap_save 1700000000001 True]) = [1700000000001]"
    by (simp add: pasta_typed_def)
  have d: "distinct (map id' (recipes pasta_saved))"
    by (simp add: pasta_saved_eq)
  have c: "distinct (clock_readings (pasta_typed @ [Tap_save 1700000000001 True]))"
    by (simp add: readings)
  have f: "\<forall>n \<in> set (clock_readings (pasta_typed @ [Tap_save 1700000000001 True])).
             toString n \<notin> id' ` set (recipes pasta_saved)"
    by (simp add: readings later pasta_saved_eq pasta_def)
  have two: "length (recipes
      (run sample_env (pasta_typed @ [Tap_save 1700000000001 True]) pasta_saved)) = 2"
    by (simp add: run_append pasta_typed_saved)
      (simp add: run_def step_def recipes_handleSave falsy_def)
  from ids_distinct_when_clock_readings_differ [OF d c f, of sample_env] d c f two
  show ?thesis by (simp add: readings)
qed

text \<open>
  C9 as stated fails: two saves that read the same clock value give two recipes with
  the same id.
\<close>

theorem same_clock_reading_counterexample:
  "clock_readings pasta_twice = [1700000000000, 1700000000000] \<and>
   startup sample_env True None = Typed empty_start \<and>
   map id' (recipes (run sample_env pasta_twice empty_start)) =
     [''1700000000000'', ''1700000000000''] \<and>
   \<not> distinct (map id' (recipes (run sample_env pasta_twice empty_start)))"
proof -
  have "clock_readings pasta_twice = [1700000000000, 1700000000000]"
    by (simp add: pasta_twice_def pasta_typed_def)
  moreover have "map id' (recipes (run sample_env pasta_twice empty_start)) =
      [''1700000000000'', ''1700000000000'']"
    by (simp add: run_pasta_twice pasta_def)
  ultimately show ?thesis by (simp add: startup_empty)
qed

text \<open>
  C10: for a draft with non-empty title and ingredients, \<open>handleSave\<close> returns with
  the form emptied and the view at \<open>LIST\<close> while the write is still in flight, and
  the settling of the write changes neither. When the write is rejected the view is
  \<open>LIST\<close>, the form is empty, the collection and the stored item are as before (the
  new recipe has not been added) and the alert "Failed to save recipe" is raised.
\<close>

theorem save_returns_to_list_before_write_settles:
  assumes "\<not> falsy (form_title (form s))" and "\<not> falsy (form_ingredients (form s))"
  shows "handleSave_sync now s =
           (s\<lparr>form := empty_form, view := LIST\<rparr>, Some (newRecipe now (form s) # recipes s)) \<and>
         handleSave env setItem_ok now s =
           saveRecipesToStorage env setItem_ok (newRecipe now (form s) # recipes s)
             (s\<lparr>form := empty_form, view := LIST\<rparr>) \<and>
         view (handleSave env setItem_ok now s) = LIST \<and>
         form (handleSave env setItem_ok now s) = empty_form \<and>
         recipes (handleSave env False now s) = recipes s \<and>
         storage (handleSave env False now s) = storage s \<and>
         alerts (handleSave env False now s) = alerts s @ [(''Error'', ''Failed to save recipe'')] \<and>
         (newRecipe now (form s) \<notin> set (recipes s) \<longrightarrow>
            newRecipe now (form s) \<notin> set (recipes (handleSave env False now s)))"
proof -
  note sync = handleSave_sync_valid [OF assms, of now]
  note whole = handleSave_valid [OF assms, of env _ now]
  have "view (handleSave env setItem_ok now s) = LIST"
    and "form (handleSave env setItem_ok now s) = empty_form"
    by (simp_all add: whole saveRecipesToStorage_def)
  moreover have "recipes (handleSave env False now s) = recipes s"
    and "storage (handleSave env False now s) = storage s"
    and "alerts (handleSave env False now s) = alerts s @ [(''Error'', ''Failed to save recipe'')]"
    by (simp_all add: whole saveRecipesToStorage_rejected)
  ultimately show ?thesis using sync whole by simp
qed

text \<open>The example draft with a rejected write.\<close>

theorem save_returns_to_list_before_write_settles_witness:
  "\<not> falsy (form_title (form pasta_draft)) \<and>
   \<not> falsy (form_ingredients (form pasta_draft)) \<and>
   view pasta_draft = ADD \<and>
   view (fst (handleSave_sync 1700000000000 pasta_draft)) = LIST \<and>
   form (fst (handleSave_sync 1700000000000 pasta_draft)) = empty_form \<and>
   recipes (fst (handleSave_sync 1700000000000 pasta_draft)) = [] \<and>
   snd (handleSave_sync 1700000000000 pasta_draft) = Some [pasta] \<and>
   view (handleSave sample_env False 1700000000000 pasta_draft) = LIST \<and>
   form (handleSave sample_env False 1700000000000 pasta_draft) = empty_form \<and>
   recipes (handleSave sample_env False 1700000000000 pasta_draft) = [] \<and>
   alerts (handleSave sample_env False 1700000000000 pasta_draft) =
     [(''Error'', ''Failed to save recipe'')]"
proof -
  have v1: "\<not> falsy (form_title (form pasta_draft))"
    and v2: "\<not> falsy (form_ingredients (form pasta_draft))"
    using pasta_draft_valid by simp_all
  have old: "recipes pasta_draft = []" "alerts pasta_draft = []" "view pasta_draft = ADD"
    by (simp_all add: pasta_draft_eq)
  note t = save_returns_to_list_before_write_settles
    [OF v1 v2, of 1700000000000 sample_env False]
  from t [THEN conjunct1]
  have sync: "handleSave_sync 1700000000000 pasta_draft =
      (pasta_draft\<lparr>form := empty_form, view := LIST\<rparr>, Some [pasta])"
    by (simp add: newRecipe_pasta old)
  from t [THEN conjunct2, THEN conjunct2]
  have settled: "view (handleSave sample_env False 1700000000000 pasta_draft) = LIST \<and>
      form (handleSave sample_env False 1700000000000 pasta_draft) = empty_form \<and>
      recipes (handleSave sample_env False 1700000000000 pasta_draft) = [] \<and>
      alerts (handleSave sample_env False 1700000000000 pasta_draft) =
        [(''Error'', ''Failed to save recipe'')]"
    by (simp add: old)
  from sync settled v1 v2 show ?thesis by (simp add: old)
qed

end
